theory Spec2Isabelle
  imports Complex_Main "HOL-Library.Sublist"
begin

section \<open>JavaScript values\<close>

text \<open>
  The pages read the backend's answers with \<open>res.json()\<close>, whose result TypeScript types
  as \<open>any\<close>. A value is therefore any parsed JSON value, or \<open>undefined\<close> (what reading a
  missing property gives). Strings are byte strings (UTF-8). An object is the list of its
  properties, looked up by key.
\<close>

datatype jsval =
    JUndefined
  | JNull
  | JBool bool
  | JNum rat
  | JString string
  | JArray "jsval list"
  | JObject "(string \<times> jsval) list"

datatype exn =
    NetworkError        \<comment> \<open>\<open>fetch\<close> rejected: no response\<close>
  | SyntaxError         \<comment> \<open>\<open>res.json()\<close> or \<open>req.json()\<close> rejected: the body is not JSON\<close>
  | TypeError           \<comment> \<open>a property of \<open>null\<close>/\<open>undefined\<close> was read, or a non-function called\<close>
  | ChatApiFailed nat   \<comment> \<open>\<open>new Error(`Chat API failed with ${res.status}`)\<close>\<close>
  | GroqError           \<comment> \<open>the Groq client's call rejected\<close>

definition nullish :: "jsval \<Rightarrow> bool" where
  "nullish v = (v = JNull \<or> v = JUndefined)"

text \<open>Truthiness, as \<open>!\<close>, \<open>||\<close> and \<open>if\<close> read it.\<close>

fun truthy :: "jsval \<Rightarrow> bool" where
  "truthy JUndefined = False"
| "truthy JNull = False"
| "truthy (JBool b) = b"
| "truthy (JNum n) = (n \<noteq> 0)"
| "truthy (JString s) = (s \<noteq> [])"
| "truthy (JArray _) = True"
| "truthy (JObject _) = True"

definition js_or :: "jsval \<Rightarrow> jsval \<Rightarrow> jsval" where
  "js_or a b = (if truthy a then a else b)"

text \<open>
  \<open>v.k\<close>, for the property names this program reads (\<open>result\<close>, \<open>role\<close>, \<open>content\<close>,
  \<open>messages\<close>, \<open>choices\<close>, \<open>message\<close>, \<open>detail\<close>, \<open>id\<close>, \<open>name\<close>, \<open>status\<close>, \<open>job_id\<close>,
  \<open>duration\<close>): none of them is a built-in property of a string, number, boolean or
  array, so only an object can have it. Reading a property of \<open>null\<close> or \<open>undefined\<close>
  throws.
\<close>

definition read_prop :: "jsval \<Rightarrow> string \<Rightarrow> jsval" where
  "read_prop v k = (case v of
      JObject fs \<Rightarrow> (case map_of fs k of Some x \<Rightarrow> x | None \<Rightarrow> JUndefined)
    | _ \<Rightarrow> JUndefined)"

definition get_prop :: "jsval \<Rightarrow> string \<Rightarrow> exn + jsval" where
  "get_prop v k = (if nullish v then Inl TypeError else Inr (read_prop v k))"

text \<open>\<open>v?.k\<close> and \<open>v?.[0]\<close>: \<open>undefined\<close> on \<open>null\<close>/\<open>undefined\<close>, never a throw.\<close>

definition opt_prop :: "jsval \<Rightarrow> string \<Rightarrow> jsval" where
  "opt_prop v k = (if nullish v then JUndefined else read_prop v k)"

definition opt_first :: "jsval \<Rightarrow> jsval" where
  "opt_first v = (case v of
      JArray xs \<Rightarrow> (case xs of [] \<Rightarrow> JUndefined | x # _ \<Rightarrow> x)
    | JString s \<Rightarrow> (case s of [] \<Rightarrow> JUndefined | c # _ \<Rightarrow> JString [c])
    | JObject fs \<Rightarrow> (case map_of fs ''0'' of Some x \<Rightarrow> x | None \<Rightarrow> JUndefined)
    | _ \<Rightarrow> JUndefined)"

text \<open>
  \<open>String.prototype.trim\<close>: the white space and line terminators of ECMAScript, each
  as its UTF-8 bytes, are stripped from both ends.
\<close>

definition white_space :: "string list" where
  "white_space =
    [[CHR 0x09], [CHR 0x0A], [CHR 0x0B], [CHR 0x0C], [CHR 0x0D], [CHR 0x20],
     [CHR 0xC2, CHR 0xA0],
     [CHR 0xE1, CHR 0x9A, CHR 0x80],
     [CHR 0xE2, CHR 0x80, CHR 0x80], [CHR 0xE2, CHR 0x80, CHR 0x81],
     [CHR 0xE2, CHR 0x80, CHR 0x82], [CHR 0xE2, CHR 0x80, CHR 0x83],
     [CHR 0xE2, CHR 0x80, CHR 0x84], [CHR 0xE2, CHR 0x80, CHR 0x85],
     [CHR 0xE2, CHR 0x80, CHR 0x86], [CHR 0xE2, CHR 0x80, CHR 0x87],
     [CHR 0xE2, CHR 0x80, CHR 0x88], [CHR 0xE2, CHR 0x80, CHR 0x89],
     [CHR 0xE2, CHR 0x80, CHR 0x8A],
     [CHR 0xE2, CHR 0x80, CHR 0xA8], [CHR 0xE2, CHR 0x80, CHR 0xA9],
     [CHR 0xE2, CHR 0x80, CHR 0xAF],
     [CHR 0xE2, CHR 0x81, CHR 0x9F],
     [CHR 0xE3, CHR 0x80, CHR 0x80],
     [CHR 0xEF, CHR 0xBB, CHR 0xBF]]"

function strip_start :: "string list \<Rightarrow> string \<Rightarrow> string" where
  "strip_start ws s =
     (case find (\<lambda>w. w \<noteq> [] \<and> prefix w s) ws of
        None \<Rightarrow> s
      | Some w \<Rightarrow> strip_start ws (drop (length w) s))"
  by pat_completeness auto
termination
proof (relation "measure (\<lambda>(ws, s). length s)")
  show "wf (measure (\<lambda>(ws, s). length s))" by simp
next
  fix ws :: "string list" and s w :: string
  assume "find (\<lambda>w. w \<noteq> [] \<and> prefix w s) ws = Some w"
  then have "w \<noteq> []" and "prefix w s"
    by (auto simp: find_Some_iff)
  then have "s \<noteq> []" by auto
  with \<open>w \<noteq> []\<close> show "((ws, drop (length w) s), (ws, s)) \<in> measure (\<lambda>(ws, s). length s)"
    by simp
qed

declare strip_start.simps [simp del]

definition js_trim :: "string \<Rightarrow> string" where
  "js_trim s = rev (strip_start (map rev white_space) (rev (strip_start white_space s)))"

section \<open>Effects\<close>

text \<open>
  A request as \<open>fetch\<close> receives it. \<open>http_method\<close> is \<open>GET\<close> when the call gives none;
  \<open>credentials\<close> is the option of that name; the body is the value handed to
  \<open>JSON.stringify\<close>, or the entries appended to a \<open>FormData\<close>.
\<close>

record file_obj =
  file_name :: string
  file_bytes :: string

datatype form_value = FormText string | FormFile file_obj

datatype req_body =
    NoBody
  | JsonBody jsval
  | FormData "(string \<times> form_value) list"

record request =
  url :: string
  http_method :: string
  headers :: "(string \<times> string) list"
  credentials :: "string option"
  body :: req_body

text \<open>
  What the network answers: no response at all (\<open>fetch\<close> rejects), or a response with its
  status and its body as \<open>res.json()\<close> parses it (\<open>None\<close>: the body is not JSON and
  \<open>res.json()\<close> rejects).
\<close>

record response =
  status :: nat
  json_body :: "jsval option"

definition ok :: "response \<Rightarrow> bool" where
  "ok res = (200 \<le> status res \<and> status res \<le> 299)"

datatype fetch_result = Rejected | Responded response

type_synonym network = "request \<Rightarrow> fetch_result"

record message =
  role :: string
  content :: jsval

text \<open>
  Everything a handler does besides computing: requests, notifications, navigation,
  console output, and the state updates it queues (\<open>AppendMessage m\<close> is
  \<open>setMessages((prev) => [...prev, m])\<close>).
\<close>

datatype effect =
    Fetch request
  | GroqCreate "jsval list" string
  | ToastError jsval
  | ToastSuccess jsval
  | RouterPush string
  | RouterReplace string
  | ConsoleError "string option" exn
  | AppendMessage message
  | AppendHistory "string \<times> jsval"
  | SetQuery string
  | SetRole string
  | SetLoading bool
  | SetLeads jsval
  | SetLogs jsval

text \<open>
  An async function's run: the effects in order, and how it settled (\<open>Inl e\<close>: the
  promise rejected with \<open>e\<close>, which nothing at the call site catches).
\<close>

type_synonym 'a run = "effect list \<times> (exn + 'a)"

definition ret :: "'a \<Rightarrow> 'a run" where
  "ret a = ([], Inr a)"

definition throw :: "exn \<Rightarrow> 'a run" where
  "throw e = ([], Inl e)"

definition emit :: "effect \<Rightarrow> unit run" where
  "emit e = ([e], Inr ())"

definition seq :: "'a run \<Rightarrow> ('a \<Rightarrow> 'b run) \<Rightarrow> 'b run" where
  "seq m f = (case m of
      (fx, Inl e) \<Rightarrow> (fx, Inl e)
    | (fx, Inr a) \<Rightarrow> (case f a of (fx', r) \<Rightarrow> (fx @ fx', r)))"

definition try_catch :: "'a run \<Rightarrow> (exn \<Rightarrow> 'a run) \<Rightarrow> 'a run" where
  "try_catch m h = (case m of
      (fx, Inl e) \<Rightarrow> (case h e of (fx', r) \<Rightarrow> (fx @ fx', r))
    | (fx, Inr a) \<Rightarrow> (fx, Inr a))"

definition try_finally :: "'a run \<Rightarrow> unit run \<Rightarrow> 'a run" where
  "try_finally m k = (case m of (fx, r) \<Rightarrow>
     (case k of
        (fx', Inl e) \<Rightarrow> (fx @ fx', Inl e)
      | (fx', Inr _) \<Rightarrow> (fx @ fx', r)))"

definition lift :: "exn + 'a \<Rightarrow> 'a run" where
  "lift r = ([], r)"

definition fetch :: "network \<Rightarrow> request \<Rightarrow> response run" where
  "fetch net req = (case net req of
      Rejected \<Rightarrow> ([Fetch req], Inl NetworkError)
    | Responded res \<Rightarrow> ([Fetch req], Inr res))"

definition res_json :: "response \<Rightarrow> jsval run" where
  "res_json res = (case json_body res of None \<Rightarrow> throw SyntaxError | Some d \<Rightarrow> ret d)"

text \<open>\<open>process.env.NEXT_PUBLIC_API_BASE_URL || 'http://localhost:8000'\<close>\<close>

definition API_BASE :: "string option \<Rightarrow> string" where
  "API_BASE env = (case env of
      None \<Rightarrow> ''http://localhost:8000''
    | Some s \<Rightarrow> (if s = [] then ''http://localhost:8000'' else s))"

section \<open>The chat client: \<open>sendChat\<close> and \<open>ChatPage\<close>\<close>

definition encode_history :: "(string \<times> jsval) list \<Rightarrow> jsval" where
  "encode_history h = JArray (map (\<lambda>(q, r). JArray [JString q, r]) h)"

definition chat_request :: "string \<Rightarrow> string \<Rightarrow> (string \<times> jsval) list \<Rightarrow> string option \<Rightarrow> request" where
  "chat_request q session_id chat_history role_arg =
     \<lparr>url = ''http://localhost:8000/chat'',
      http_method = ''POST'',
      headers = [(''Content-Type'', ''application/json'')],
      credentials = None,
      body = JsonBody (JObject
        [(''query'', JString q),
         (''session_id'', JString session_id),
         (''chat_history'', encode_history chat_history),
         (''role'', JString (case role_arg of None \<Rightarrow> ''general'' | Some r \<Rightarrow> r))])\<rparr>"

definition sendChat :: "network \<Rightarrow> string \<Rightarrow> string \<Rightarrow> (string \<times> jsval) list \<Rightarrow> string option \<Rightarrow> jsval run" where
  "sendChat net q session_id chat_history role_arg =
     seq (fetch net (chat_request q session_id chat_history role_arg)) (\<lambda>res.
       if \<not> ok res then throw (ChatApiFailed (status res))
       else res_json res)"

record chat_state =
  query :: string
  messages :: "message list"
  sessionId :: string
  history :: "(string \<times> jsval) list"

definition handleSend :: "network \<Rightarrow> chat_state \<Rightarrow> unit run" where
  "handleSend net st =
     (if js_trim (query st) = [] then ret ()
      else
        seq (emit (AppendMessage \<lparr>role = ''user'', content = JString (query st)\<rparr>)) (\<lambda>_.
        seq (try_catch
               (seq (sendChat net (query st) (sessionId st) (history st) (Some ''general'')) (\<lambda>res.
                seq (lift (get_prop res ''result'')) (\<lambda>result.
                seq (emit (AppendMessage \<lparr>role = ''bot'', content = result\<rparr>)) (\<lambda>_.
                emit (AppendHistory (query st, result))))))
               (\<lambda>err.
                seq (emit (ConsoleError None err)) (\<lambda>_.
                emit (AppendMessage \<lparr>role = ''bot'', content = JString ''Error from server.''\<rparr>))))
            (\<lambda>_.
        emit (SetQuery []))))"

text \<open>The state of \<open>ChatPage\<close> after React has applied the queued updates in order.\<close>

fun ChatPage_update :: "chat_state \<Rightarrow> effect \<Rightarrow> chat_state" where
  "ChatPage_update st (AppendMessage m) = st\<lparr>messages := messages st @ [m]\<rparr>"
| "ChatPage_update st (AppendHistory p) = st\<lparr>history := history st @ [p]\<rparr>"
| "ChatPage_update st (SetQuery q) = st\<lparr>query := q\<rparr>"
| "ChatPage_update st _ = st"

definition ChatPage_after :: "network \<Rightarrow> chat_state \<Rightarrow> chat_state" where
  "ChatPage_after net st = foldl ChatPage_update st (fst (handleSend net st))"

section \<open>The internal chat route: \<open>app/api/chat/route.ts\<close>\<close>

text \<open>
  The Groq client is outside the repository: \<open>groq.chat.completions.create\<close> is a
  parameter, a function from the messages and the model name to the completion, or to the
  error it rejects with. The call itself is the effect \<open>GroqCreate\<close>.
\<close>

type_synonym groq_client = "jsval list \<Rightarrow> string \<Rightarrow> exn + jsval"

definition bind_exn :: "exn + 'a \<Rightarrow> ('a \<Rightarrow> exn + 'b) \<Rightarrow> exn + 'b" where
  "bind_exn r f = (case r of Inl e \<Rightarrow> Inl e | Inr a \<Rightarrow> f a)"

text \<open>\<open>Array.prototype.map\<close> with a callback that may throw: the first throw ends the loop.\<close>

fun map_exn :: "('a \<Rightarrow> exn + 'b) \<Rightarrow> 'a list \<Rightarrow> exn + 'b list" where
  "map_exn f [] = Inr []"
| "map_exn f (x # xs) =
     (case f x of
        Inl e \<Rightarrow> Inl e
      | Inr y \<Rightarrow> (case map_exn f xs of Inl e \<Rightarrow> Inl e | Inr ys \<Rightarrow> Inr (y # ys)))"

text \<open>\<open>xs.map(f)\<close> on a value: only an array has \<open>map\<close>; calling it on anything else throws.\<close>

definition array_map :: "(jsval \<Rightarrow> exn + 'b) \<Rightarrow> jsval \<Rightarrow> exn + 'b list" where
  "array_map f v = (case v of JArray xs \<Rightarrow> map_exn f xs | _ \<Rightarrow> Inl TypeError)"

definition groq_message :: "jsval \<Rightarrow> exn + jsval" where
  "groq_message msg =
     bind_exn (get_prop msg ''role'') (\<lambda>r.
     bind_exn (get_prop msg ''content'') (\<lambda>c.
     Inr (JObject [(''role'', r), (''content'', c)])))"

definition groq_create :: "groq_client \<Rightarrow> jsval list \<Rightarrow> string \<Rightarrow> jsval run" where
  "groq_create groq msgs model = ([GroqCreate msgs model], groq msgs model)"

definition completion_reply :: "jsval \<Rightarrow> exn + jsval" where
  "completion_reply chatCompletion =
     bind_exn (get_prop chatCompletion ''choices'') (\<lambda>choices.
     Inr (js_or (opt_prop (opt_prop (opt_first choices) ''message'') ''content'') (JString [])))"

definition NextResponse_json :: "jsval \<Rightarrow> nat \<Rightarrow> response" where
  "NextResponse_json v st = \<lparr>status = st, json_body = Some v\<rparr>"

text \<open>The statements inside the \<open>try\<close> of \<open>POST\<close>.\<close>

definition POST_body :: "groq_client \<Rightarrow> jsval option \<Rightarrow> response run" where
  "POST_body groq req_json =
     seq (lift (case req_json of None \<Rightarrow> Inl SyntaxError | Some b \<Rightarrow> Inr b)) (\<lambda>body.
     seq (lift (get_prop body ''messages'')) (\<lambda>m.
     seq (lift (array_map groq_message (js_or m (JArray [])))) (\<lambda>groqMessages.
     seq (groq_create groq groqMessages ''mixtral-8x7b-32768'') (\<lambda>chatCompletion.
     seq (lift (completion_reply chatCompletion)) (\<lambda>reply.
     ret (NextResponse_json (JObject [(''role'', JString ''assistant''), (''content'', reply)]) 200))))))"

definition POST :: "groq_client \<Rightarrow> jsval option \<Rightarrow> response run" where
  "POST groq req_json =
     try_catch (POST_body groq req_json)
       (\<lambda>err.
        seq (emit (ConsoleError (Some ''Chat error:'') err)) (\<lambda>_.
        ret (NextResponse_json (JObject [(''error'', JString ''Chat failed'')]) 500)))"

section \<open>The login page\<close>

definition login_request :: "string option \<Rightarrow> string \<Rightarrow> string \<Rightarrow> request" where
  "login_request env username password =
     \<lparr>url = API_BASE env @ ''/login'',
      http_method = ''POST'',
      headers = [],
      credentials = Some ''include'',
      body = FormData [(''username'', FormText username), (''password'', FormText password)]\<rparr>"

definition handleLogin :: "string option \<Rightarrow> network \<Rightarrow> string \<Rightarrow> string \<Rightarrow> unit run" where
  "handleLogin env net username password =
     (if username = [] \<or> password = []
      then emit (ToastError (JString ''Please enter username and password''))
      else
        try_catch
          (seq (fetch net (login_request env username password)) (\<lambda>res.
             if ok res
             then seq (emit (ToastSuccess (JString ''Login successful''))) (\<lambda>_.
                  emit (RouterReplace ''/dashboard/kb-upload''))
             else seq (res_json res) (\<lambda>data.
                  seq (lift (get_prop data ''detail'')) (\<lambda>detail.
                  emit (ToastError (js_or detail (JString ''Login failed'')))))))
          (\<lambda>err.
             seq (emit (ConsoleError None err)) (\<lambda>_.
             emit (ToastError (JString ''Something went wrong'')))))"

section \<open>The list pages: leads and sync logs\<close>

record table_row =
  row_key :: jsval
  cells :: "jsval list"

definition leads_request :: "string option \<Rightarrow> request" where
  "leads_request env =
     \<lparr>url = API_BASE env @ ''/leads'', http_method = ''GET'', headers = [],
      credentials = None, body = NoBody\<rparr>"

text \<open>The effect of \<open>LeadsPage\<close>: \<open>fetch(...).then(res => res.json()).then(data => setLeads(data || []))\<close>.\<close>

definition LeadsPage_effect :: "string option \<Rightarrow> network \<Rightarrow> unit run" where
  "LeadsPage_effect env net =
     seq (fetch net (leads_request env)) (\<lambda>res.
     seq (res_json res) (\<lambda>data.
     emit (SetLeads (js_or data (JArray [])))))"

definition lead_row :: "jsval \<Rightarrow> exn + table_row" where
  "lead_row lead =
     bind_exn (get_prop lead ''id'') (\<lambda>k.
     bind_exn (get_prop lead ''id'') (\<lambda>c1.
     bind_exn (get_prop lead ''name'') (\<lambda>c2.
     bind_exn (get_prop lead ''status'') (\<lambda>c3.
     Inr \<lparr>row_key = k, cells = [c1, c2, c3]\<rparr>))))"

text \<open>The table body \<open>leads.map((lead) => <tr key=...>...</tr>)\<close>: one row per element.\<close>

definition LeadsPage_rows :: "jsval \<Rightarrow> exn + table_row list" where
  "LeadsPage_rows leads = array_map lead_row leads"

definition sync_logs_request :: "string option \<Rightarrow> request" where
  "sync_logs_request env =
     \<lparr>url = API_BASE env @ ''/sync-logs'', http_method = ''GET'', headers = [],
      credentials = None, body = NoBody\<rparr>"

definition SyncLogsPage_effect :: "string option \<Rightarrow> network \<Rightarrow> unit run" where
  "SyncLogsPage_effect env net =
     seq (fetch net (sync_logs_request env)) (\<lambda>res.
     seq (res_json res) (\<lambda>data.
     emit (SetLogs (js_or data (JArray [])))))"

definition log_row :: "jsval \<Rightarrow> exn + table_row" where
  "log_row entry =
     bind_exn (get_prop entry ''job_id'') (\<lambda>k.
     bind_exn (get_prop entry ''job_id'') (\<lambda>c1.
     bind_exn (get_prop entry ''status'') (\<lambda>c2.
     bind_exn (get_prop entry ''duration'') (\<lambda>c3.
     Inr \<lparr>row_key = k, cells = [c1, c2, c3]\<rparr>))))"

definition SyncLogsPage_rows :: "jsval \<Rightarrow> exn + table_row list" where
  "SyncLogsPage_rows logs = array_map log_row logs"

text \<open>
  The list a page holds after its effect ran: \<open>useState<any[]>([])\<close>, then the queued
  \<open>setLeads\<close>/\<open>setLogs\<close>.
\<close>

fun list_update_of :: "jsval \<Rightarrow> effect \<Rightarrow> jsval" where
  "list_update_of cur (SetLeads v) = v"
| "list_update_of cur (SetLogs v) = v"
| "list_update_of cur _ = cur"

definition list_after :: "effect list \<Rightarrow> jsval" where
  "list_after fx = foldl list_update_of (JArray []) fx"

section \<open>The session gates and the knowledge-base page\<close>

definition check_session_request :: "string option \<Rightarrow> request" where
  "check_session_request env =
     \<lparr>url = API_BASE env @ ''/check-session'', http_method = ''GET'', headers = [],
      credentials = Some ''include'', body = NoBody\<rparr>"

text \<open>\<open>checkSession\<close> of \<open>DashboardHome\<close>: no \<open>try\<close> around the calls.\<close>

definition DashboardHome_checkSession :: "string option \<Rightarrow> network \<Rightarrow> unit run" where
  "DashboardHome_checkSession env net =
     seq (fetch net (check_session_request env)) (\<lambda>res.
       if ok res
       then seq (res_json res) (\<lambda>data.
            seq (lift (get_prop data ''role'')) (\<lambda>r.
            if r = JString ''logged_in'' then emit (SetRole ''logged_in'')
            else emit (RouterPush ''/login'')))
       else seq (emit (ToastError (JString ''Session invalid. Redirecting...''))) (\<lambda>_.
            emit (RouterPush ''/login'')))"

text \<open>\<open>checkSession\<close> of \<open>DashboardLayout\<close>: the same, with its own toast text.\<close>

definition DashboardLayout_checkSession :: "string option \<Rightarrow> network \<Rightarrow> unit run" where
  "DashboardLayout_checkSession env net =
     seq (fetch net (check_session_request env)) (\<lambda>res.
       if ok res
       then seq (res_json res) (\<lambda>data.
            seq (lift (get_prop data ''role'')) (\<lambda>r.
            if r = JString ''logged_in'' then emit (SetRole ''logged_in'')
            else emit (RouterPush ''/login'')))
       else seq (emit (ToastError (JString ''Session expired. Redirecting...''))) (\<lambda>_.
            emit (RouterPush ''/login'')))"

text \<open>\<open>fetchSession\<close> of \<open>KBUploadPage\<close>: \<open>try\<close>/\<open>catch\<close>/\<open>finally\<close>, and no look at \<open>res.ok\<close>.\<close>

definition KBUploadPage_fetchSession :: "string option \<Rightarrow> network \<Rightarrow> unit run" where
  "KBUploadPage_fetchSession env net =
     try_finally
       (try_catch
          (seq (fetch net (check_session_request env)) (\<lambda>res.
           seq (res_json res) (\<lambda>data.
           seq (lift (get_prop data ''role'')) (\<lambda>r.
           if r \<noteq> JString ''logged_in'' then emit (RouterReplace ''/login'')
           else emit (SetRole ''logged_in'')))))
          (\<lambda>error.
           seq (emit (ConsoleError (Some ''Session check failed:'') error)) (\<lambda>_.
           emit (RouterReplace ''/login''))))
       (emit (SetLoading False))"

text \<open>
  What a gated page shows. \<open>DashboardHome\<close> and \<open>DashboardLayout\<close> hold
  \<open>role :: 'general' | 'logged_in' | null\<close>, first \<open>null\<close>, and show their content once it
  is set; \<open>KBUploadPage\<close> holds \<open>loading\<close>, first \<open>true\<close>, and shows its content once it
  is \<open>false\<close>.
\<close>

datatype view = Checking | Content

fun role_update :: "string option \<Rightarrow> effect \<Rightarrow> string option" where
  "role_update cur (SetRole r) = Some r"
| "role_update cur _ = cur"

definition role_after :: "effect list \<Rightarrow> string option" where
  "role_after fx = foldl role_update None fx"

definition Dashboard_view :: "string option \<Rightarrow> view" where
  "Dashboard_view r = (if r = None then Checking else Content)"

fun loading_update :: "bool \<Rightarrow> effect \<Rightarrow> bool" where
  "loading_update cur (SetLoading b) = b"
| "loading_update cur _ = cur"

definition loading_after :: "effect list \<Rightarrow> bool" where
  "loading_after fx = foldl loading_update True fx"

definition KBUploadPage_view :: "bool \<Rightarrow> view" where
  "KBUploadPage_view loading = (if loading then Checking else Content)"

text \<open>The two marks of the toast texts, U+2705 and U+274C, as their UTF-8 bytes.\<close>

definition check_mark :: string where
  "check_mark = [CHR 0xE2, CHR 0x9C, CHR 0x85]"

definition cross_mark :: string where
  "cross_mark = [CHR 0xE2, CHR 0x9D, CHR 0x8C]"

text \<open>
  A value inside a template literal: a string stands as it is; for any other value the
  runtime's \<open>ToString\<close> is the parameter \<open>to_str\<close>.
\<close>

definition template_value :: "(jsval \<Rightarrow> string) \<Rightarrow> jsval \<Rightarrow> string" where
  "template_value to_str v = (case v of JString s \<Rightarrow> s | _ \<Rightarrow> to_str v)"

definition upload_request :: "string option \<Rightarrow> file_obj \<Rightarrow> request" where
  "upload_request env f =
     \<lparr>url = API_BASE env @ ''/kb-upload'',
      http_method = ''POST'',
      headers = [],
      credentials = Some ''include'',
      body = FormData [(''file'', FormFile f)]\<rparr>"

definition handleUpload :: "(jsval \<Rightarrow> string) \<Rightarrow> string option \<Rightarrow> network \<Rightarrow> file_obj option \<Rightarrow> unit run" where
  "handleUpload to_str env net file =
     (case file of
        None \<Rightarrow> emit (ToastError (JString ''Please select a file first.''))
      | Some f \<Rightarrow>
          seq (fetch net (upload_request env f)) (\<lambda>res.
            if ok res
            then emit (ToastSuccess (JString (check_mark @ '' File uploaded and indexed'')))
            else seq (res_json res) (\<lambda>data.
                 seq (lift (get_prop data ''message'')) (\<lambda>m.
                 emit (ToastError (JString (cross_mark @ '' Upload failed: '' @
                   template_value to_str (js_or m (JString ''Unknown error'')))))))))"





section \<open>Reading a run\<close>

text \<open>The calls a run makes to another machine: a \<open>fetch\<close>, or a call of the Groq client.\<close>

fun is_fetch :: "effect \<Rightarrow> bool" where
  "is_fetch (Fetch _) = True"
| "is_fetch _ = False"





fun is_toast :: "effect \<Rightarrow> bool" where
  "is_toast (ToastError _) = True"
| "is_toast (ToastSuccess _) = True"
| "is_toast _ = False"

fun is_redirect :: "effect \<Rightarrow> bool" where
  "is_redirect (RouterPush p) = (p = ''/login'')"
| "is_redirect (RouterReplace p) = (p = ''/login'')"
| "is_redirect _ = False"

definition failed :: "fetch_result \<Rightarrow> bool" where
  "failed r = (case r of Rejected \<Rightarrow> True | Responded res \<Rightarrow> \<not> ok res)"

section \<open>Facts about runs\<close>

lemmas run_defs = ret_def throw_def emit_def seq_def try_catch_def try_finally_def lift_def
  fetch_def res_json_def

lemmas trim_defs = js_trim_def strip_start.simps white_space_def

text \<open>\<open>sendChat\<close> makes exactly one request, whatever comes back.\<close>

lemma sendChat_effects: "fst (sendChat net q sid h r) = [Fetch (chat_request q sid h r)]"
  by (simp add: sendChat_def run_defs split: fetch_result.splits option.splits prod.splits sum.splits)

lemma sendChat_run: "sendChat net q sid h r = ([Fetch (chat_request q sid h r)], snd (sendChat net q sid h r))"
  using sendChat_effects[of net q sid h r] by (cases "sendChat net q sid h r") simp

lemma handleSend_ok:
  assumes "js_trim (query st) \<noteq> []"
    and "snd (sendChat net (query st) (sessionId st) (history st) (Some ''general'')) = Inr d"
    and "\<not> nullish d"
  shows "handleSend net st =
     ([AppendMessage \<lparr>role = ''user'', content = JString (query st)\<rparr>,
       Fetch (chat_request (query st) (sessionId st) (history st) (Some ''general'')),
       AppendMessage \<lparr>role = ''bot'', content = read_prop d ''result''\<rparr>,
       AppendHistory (query st, read_prop d ''result''),
       SetQuery []], Inr ())"
proof -
  have "sendChat net (query st) (sessionId st) (history st) (Some ''general'') =
    ([Fetch (chat_request (query st) (sessionId st) (history st) (Some ''general''))], Inr d)"
    using sendChat_run[of net "query st" "sessionId st" "history st" "Some ''general''"] assms(2)
    by simp
  then show ?thesis
    using assms(1,3)
    by (simp add: handleSend_def ret_def emit_def seq_def try_catch_def lift_def get_prop_def)
qed

lemma handleSend_fail:
  assumes "js_trim (query st) \<noteq> []"
    and "snd (sendChat net (query st) (sessionId st) (history st) (Some ''general'')) = Inl e"
  shows "handleSend net st =
     ([AppendMessage \<lparr>role = ''user'', content = JString (query st)\<rparr>,
       Fetch (chat_request (query st) (sessionId st) (history st) (Some ''general'')),
       ConsoleError None e,
       AppendMessage \<lparr>role = ''bot'', content = JString ''Error from server.''\<rparr>,
       SetQuery []], Inr ())"
proof -
  have "sendChat net (query st) (sessionId st) (history st) (Some ''general'') =
    ([Fetch (chat_request (query st) (sessionId st) (history st) (Some ''general''))], Inl e)"
    using sendChat_run[of net "query st" "sessionId st" "history st" "Some ''general''"] assms(2)
    by simp
  then show ?thesis
    using assms(1)
    by (simp add: handleSend_def ret_def emit_def seq_def try_catch_def lift_def get_prop_def)
qed

lemma handleSend_null:
  assumes "js_trim (query st) \<noteq> []"
    and "snd (sendChat net (query st) (sessionId st) (history st) (Some ''general'')) = Inr d"
    and "nullish d"
  shows "handleSend net st =
     ([AppendMessage \<lparr>role = ''user'', content = JString (query st)\<rparr>,
       Fetch (chat_request (query st) (sessionId st) (history st) (Some ''general'')),
       ConsoleError None TypeError,
       AppendMessage \<lparr>role = ''bot'', content = JString ''Error from server.''\<rparr>,
       SetQuery []], Inr ())"
proof -
  have "sendChat net (query st) (sessionId st) (history st) (Some ''general'') =
    ([Fetch (chat_request (query st) (sessionId st) (history st) (Some ''general''))], Inr d)"
    using sendChat_run[of net "query st" "sessionId st" "history st" "Some ''general''"] assms(2)
    by simp
  then show ?thesis
    using assms(1,3)
    by (simp add: handleSend_def ret_def emit_def seq_def try_catch_def lift_def get_prop_def)
qed

lemma ChatPage_sessionId_kept: "sessionId (foldl ChatPage_update st fx) = sessionId st"
proof (induction fx arbitrary: st)
  case Nil
  show ?case by simp
next
  case (Cons e fx)
  show ?case by (cases e) (simp_all add: Cons.IH)
qed

section \<open>The chat page\<close>

text \<open>
  C1, as stated, fails: a chat call can succeed and no reply be appended. At a 200
  response whose JSON body is \<open>null\<close>, \<open>sendChat\<close> returns \<open>null\<close>; reading \<open>res.result\<close>
  throws inside the \<open>try\<close>, and the \<open>catch\<close> shows the error message instead of a reply
  and appends no pair to the history.
\<close>

theorem null_reply_shows_error:
  "snd (sendChat (\<lambda>_. Responded \<lparr>status = 200, json_body = Some JNull\<rparr>)
        ''hello'' ''s7'' [(''a'', JString ''b'')] (Some ''general'')) = Inr JNull
   \<and> messages (ChatPage_after (\<lambda>_. Responded \<lparr>status = 200, json_body = Some JNull\<rparr>)
        \<lparr>query = ''hello'', messages = [], sessionId = ''s7'', history = [(''a'', JString ''b'')]\<rparr>)
      = [\<lparr>role = ''user'', content = JString ''hello''\<rparr>,
         \<lparr>role = ''bot'', content = JString ''Error from server.''\<rparr>]
   \<and> history (ChatPage_after (\<lambda>_. Responded \<lparr>status = 200, json_body = Some JNull\<rparr>)
        \<lparr>query = ''hello'', messages = [], sessionId = ''s7'', history = [(''a'', JString ''b'')]\<rparr>)
      = [(''a'', JString ''b'')]"
  by (simp add: trim_defs ChatPage_after_def handleSend_def sendChat_def run_defs ok_def
      get_prop_def nullish_def)

text \<open>
  C1, amended. A chat send whose query is not blank after trimming first appends the
  user message \<open>{role: "user", content: query}\<close> to the displayed messages and then sends
  one POST to the chat endpoint whose body carries the query, the session id, the held
  history as \<open>chat_history\<close> (each pair as the array \<open>[query, result]\<close>, in order) and the
  role \<open>general\<close>. When \<open>sendChat\<close> returns a value \<open>d\<close> other than \<open>null\<close>, the handler
  appends \<open>d.result\<close> as a bot message and the pair \<open>[query, d.result]\<close> to the history,
  and the next send, with any new non-blank query and any network, carries the grown
  history, the new pair last, as \<open>chat_history\<close>. When \<open>sendChat\<close> returns \<open>null\<close> the
  handler shows the error message and appends no pair.
\<close>

theorem handleSend_exchange:
  assumes "js_trim (query st) \<noteq> []"
  shows "take 2 (fst (handleSend net st)) =
      [AppendMessage \<lparr>role = ''user'', content = JString (query st)\<rparr>,
       Fetch \<lparr>url = ''http://localhost:8000/chat'', http_method = ''POST'',
              headers = [(''Content-Type'', ''application/json'')], credentials = None,
              body = JsonBody (JObject
                [(''query'', JString (query st)),
                 (''session_id'', JString (sessionId st)),
                 (''chat_history'', JArray (map (\<lambda>(q, r). JArray [JString q, r]) (history st))),
                 (''role'', JString ''general'')])\<rparr>]
    \<and> (snd (sendChat net (query st) (sessionId st) (history st) (Some ''general'')) = Inr d
         \<and> \<not> nullish d \<longrightarrow>
       drop 2 (fst (handleSend net st)) =
         [AppendMessage \<lparr>role = ''bot'', content = read_prop d ''result''\<rparr>,
          AppendHistory (query st, read_prop d ''result''),
          SetQuery []]
       \<and> messages (ChatPage_after net st) = messages st @
           [\<lparr>role = ''user'', content = JString (query st)\<rparr>,
            \<lparr>role = ''bot'', content = read_prop d ''result''\<rparr>]
       \<and> history (ChatPage_after net st) = history st @ [(query st, read_prop d ''result'')]
       \<and> (\<forall>q' net'. js_trim q' \<noteq> [] \<longrightarrow>
            take 2 (fst (handleSend net' ((ChatPage_after net st)\<lparr>query := q'\<rparr>))) =
              [AppendMessage \<lparr>role = ''user'', content = JString q'\<rparr>,
               Fetch \<lparr>url = ''http://localhost:8000/chat'', http_method = ''POST'',
                 headers = [(''Content-Type'', ''application/json'')], credentials = None,
                 body = JsonBody (JObject
                   [(''query'', JString q'),
                    (''session_id'', JString (sessionId st)),
                    (''chat_history'', JArray
                       (map (\<lambda>(q, r). JArray [JString q, r]) (history st)
                        @ [JArray [JString (query st), read_prop d ''result'']])),
                    (''role'', JString ''general'')])\<rparr>]))
    \<and> (snd (sendChat net (query st) (sessionId st) (history st) (Some ''general'')) = Inr d
         \<and> nullish d \<longrightarrow>
       drop 2 (fst (handleSend net st)) =
         [ConsoleError None TypeError,
          AppendMessage \<lparr>role = ''bot'', content = JString ''Error from server.''\<rparr>,
          SetQuery []]
       \<and> messages (ChatPage_after net st) = messages st @
           [\<lparr>role = ''user'', content = JString (query st)\<rparr>,
            \<lparr>role = ''bot'', content = JString ''Error from server.''\<rparr>]
       \<and> history (ChatPage_after net st) = history st)"
proof -
  have req: "chat_request q sid h (Some ''general'') =
      \<lparr>url = ''http://localhost:8000/chat'', http_method = ''POST'',
        headers = [(''Content-Type'', ''application/json'')], credentials = None,
        body = JsonBody (JObject
                [(''query'', JString q),
                 (''session_id'', JString sid),
                 (''chat_history'', JArray (map (\<lambda>(q, r). JArray [JString q, r]) h)),
                 (''role'', JString ''general'')])\<rparr>" for q sid h
    by (simp add: chat_request_def encode_history_def)
  have pre: "take 2 (fst (handleSend n s)) =
      [AppendMessage \<lparr>role = ''user'', content = JString (query s)\<rparr>,
       Fetch (chat_request (query s) (sessionId s) (history s) (Some ''general''))]"
    if nb: "js_trim (query s) \<noteq> []" for n s
  proof (cases "snd (sendChat n (query s) (sessionId s) (history s) (Some ''general''))")
    case (Inl e)
    show ?thesis by (simp add: handleSend_fail[OF nb Inl])
  next
    case (Inr v)
    show ?thesis
    proof (cases "nullish v")
      case True
      show ?thesis by (simp add: handleSend_null[OF nb Inr True])
    next
      case False
      show ?thesis by (simp add: handleSend_ok[OF nb Inr False])
    qed
  qed
  have first: "take 2 (fst (handleSend net st)) =
      [AppendMessage \<lparr>role = ''user'', content = JString (query st)\<rparr>,
       Fetch \<lparr>url = ''http://localhost:8000/chat'', http_method = ''POST'',
              headers = [(''Content-Type'', ''application/json'')], credentials = None,
              body = JsonBody (JObject
                [(''query'', JString (query st)),
                 (''session_id'', JString (sessionId st)),
                 (''chat_history'', JArray (map (\<lambda>(q, r). JArray [JString q, r]) (history st))),
                 (''role'', JString ''general'')])\<rparr>]"
    using pre[OF assms, of net] by (simp only: req)
  have good: "drop 2 (fst (handleSend net st)) =
         [AppendMessage \<lparr>role = ''bot'', content = read_prop d ''result''\<rparr>,
          AppendHistory (query st, read_prop d ''result''),
          SetQuery []]
       \<and> messages (ChatPage_after net st) = messages st @
           [\<lparr>role = ''user'', content = JString (query st)\<rparr>,
            \<lparr>role = ''bot'', content = read_prop d ''result''\<rparr>]
       \<and> history (ChatPage_after net st) = history st @ [(query st, read_prop d ''result'')]
       \<and> (\<forall>q' net'. js_trim q' \<noteq> [] \<longrightarrow>
            take 2 (fst (handleSend net' ((ChatPage_after net st)\<lparr>query := q'\<rparr>))) =
              [AppendMessage \<lparr>role = ''user'', content = JString q'\<rparr>,
               Fetch \<lparr>url = ''http://localhost:8000/chat'', http_method = ''POST'',
                 headers = [(''Content-Type'', ''application/json'')], credentials = None,
                 body = JsonBody (JObject
                   [(''query'', JString q'),
                    (''session_id'', JString (sessionId st)),
                    (''chat_history'', JArray
                       (map (\<lambda>(q, r). JArray [JString q, r]) (history st)
                        @ [JArray [JString (query st), read_prop d ''result'']])),
                    (''role'', JString ''general'')])\<rparr>])"
    if sc: "snd (sendChat net (query st) (sessionId st) (history st) (Some ''general'')) = Inr d"
      and nn: "\<not> nullish d"
  proof -
    note run = handleSend_ok[OF assms sc nn]
    have h: "history (ChatPage_after net st) = history st @ [(query st, read_prop d ''result'')]"
      by (simp add: ChatPage_after_def run)
    have m: "messages (ChatPage_after net st) = messages st @
           [\<lparr>role = ''user'', content = JString (query st)\<rparr>,
            \<lparr>role = ''bot'', content = read_prop d ''result''\<rparr>]"
      by (simp add: ChatPage_after_def run)
    have s: "sessionId (ChatPage_after net st) = sessionId st"
      by (simp add: ChatPage_after_def ChatPage_sessionId_kept)
    have nxt: "take 2 (fst (handleSend net' ((ChatPage_after net st)\<lparr>query := q'\<rparr>))) =
              [AppendMessage \<lparr>role = ''user'', content = JString q'\<rparr>,
               Fetch \<lparr>url = ''http://localhost:8000/chat'', http_method = ''POST'',
                 headers = [(''Content-Type'', ''application/json'')], credentials = None,
                 body = JsonBody (JObject
                   [(''query'', JString q'),
                    (''session_id'', JString (sessionId st)),
                    (''chat_history'', JArray
                       (map (\<lambda>(q, r). JArray [JString q, r]) (history st)
                        @ [JArray [JString (query st), read_prop d ''result'']])),
                    (''role'', JString ''general'')])\<rparr>]"
      if "js_trim q' \<noteq> []" for q' net'
      using pre[of "(ChatPage_after net st)\<lparr>query := q'\<rparr>" net'] that
      by (simp add: h s req)
    have d2: "drop 2 (fst (handleSend net st)) =
         [AppendMessage \<lparr>role = ''bot'', content = read_prop d ''result''\<rparr>,
          AppendHistory (query st, read_prop d ''result''),
          SetQuery []]"
      by (simp add: run)
    from d2 m h nxt show ?thesis by blast
  qed
  have bad: "drop 2 (fst (handleSend net st)) =
         [ConsoleError None TypeError,
          AppendMessage \<lparr>role = ''bot'', content = JString ''Error from server.''\<rparr>,
          SetQuery []]
       \<and> messages (ChatPage_after net st) = messages st @
           [\<lparr>role = ''user'', content = JString (query st)\<rparr>,
            \<lparr>role = ''bot'', content = JString ''Error from server.''\<rparr>]
       \<and> history (ChatPage_after net st) = history st"
    if sc: "snd (sendChat net (query st) (sessionId st) (history st) (Some ''general'')) = Inr d"
      and nn: "nullish d"
    using handleSend_null[OF assms sc nn] by (simp add: ChatPage_after_def)
  from first good bad show ?thesis by blast
qed

theorem handleSend_exchange_witness:
  "history (ChatPage_after
      (\<lambda>_. Responded \<lparr>status = 200, json_body = Some (JObject [(''result'', JString ''yo'')])\<rparr>)
      \<lparr>query = ''hi'', messages = [], sessionId = ''s1'', history = []\<rparr>)
     = [(''hi'', JString ''yo'')]
   \<and> messages (ChatPage_after
      (\<lambda>_. Responded \<lparr>status = 200, json_body = Some (JObject [(''result'', JString ''yo'')])\<rparr>)
      \<lparr>query = ''hi'', messages = [], sessionId = ''s1'', history = []\<rparr>)
     = [\<lparr>role = ''user'', content = JString ''hi''\<rparr>, \<lparr>role = ''bot'', content = JString ''yo''\<rparr>]
   \<and> take 2 (fst (handleSend (\<lambda>_. Rejected)
        ((ChatPage_after
          (\<lambda>_. Responded \<lparr>status = 200, json_body = Some (JObject [(''result'', JString ''yo'')])\<rparr>)
          \<lparr>query = ''hi'', messages = [], sessionId = ''s1'', history = []\<rparr>)\<lparr>query := ''more''\<rparr>)))
     = [AppendMessage \<lparr>role = ''user'', content = JString ''more''\<rparr>,
        Fetch \<lparr>url = ''http://localhost:8000/chat'', http_method = ''POST'',
          headers = [(''Content-Type'', ''application/json'')], credentials = None,
          body = JsonBody (JObject
            [(''query'', JString ''more''),
             (''session_id'', JString ''s1''),
             (''chat_history'', JArray [JArray [JString ''hi'', JString ''yo'']]),
             (''role'', JString ''general'')])\<rparr>]
   \<and> history (ChatPage_after (\<lambda>_. Responded \<lparr>status = 200, json_body = Some JNull\<rparr>)
        \<lparr>query = ''hi'', messages = [], sessionId = ''s1'', history = []\<rparr>) = []"
proof -
  let ?net = "\<lambda>_::request. Responded \<lparr>status = 200, json_body = Some (JObject [(''result'', JString ''yo'')])\<rparr>"
  let ?nul = "\<lambda>_::request. Responded \<lparr>status = 200, json_body = Some JNull\<rparr>"
  let ?st = "\<lparr>query = ''hi'', messages = [], sessionId = ''s1'', history = []\<rparr>"
  let ?d = "JObject [(''result'', JString ''yo'')]"
  have nb: "js_trim (query ?st) \<noteq> []"
    by (simp add: trim_defs)
  have nb': "js_trim ''more'' \<noteq> []"
    by (simp add: trim_defs)
  have sc: "snd (sendChat ?net (query ?st) (sessionId ?st) (history ?st) (Some ''general'')) = Inr ?d"
    by (simp add: sendChat_def run_defs ok_def)
  have sn: "snd (sendChat ?nul (query ?st) (sessionId ?st) (history ?st) (Some ''general'')) = Inr JNull"
    by (simp add: sendChat_def run_defs ok_def)
  have nn: "\<not> nullish ?d" "nullish JNull"
    by (simp_all add: nullish_def)
  have rd: "read_prop ?d ''result'' = JString ''yo''"
    by (simp add: read_prop_def)
  note t = handleSend_exchange[OF nb, of ?net ?d, THEN conjunct2, THEN conjunct1]
  note t' = handleSend_exchange[OF nb, of ?nul JNull, THEN conjunct2, THEN conjunct2]
  from t sc nn nb' rd have 1:
    "history (ChatPage_after ?net ?st) = [(''hi'', JString ''yo'')]
     \<and> messages (ChatPage_after ?net ?st)
       = [\<lparr>role = ''user'', content = JString ''hi''\<rparr>, \<lparr>role = ''bot'', content = JString ''yo''\<rparr>]
     \<and> take 2 (fst (handleSend (\<lambda>_. Rejected) ((ChatPage_after ?net ?st)\<lparr>query := ''more''\<rparr>)))
       = [AppendMessage \<lparr>role = ''user'', content = JString ''more''\<rparr>,
          Fetch \<lparr>url = ''http://localhost:8000/chat'', http_method = ''POST'',
            headers = [(''Content-Type'', ''application/json'')], credentials = None,
            body = JsonBody (JObject
              [(''query'', JString ''more''),
               (''session_id'', JString ''s1''),
               (''chat_history'', JArray [JArray [JString ''hi'', JString ''yo'']]),
               (''role'', JString ''general'')])\<rparr>]"
    by simp
  from t' sn nn have 2: "history (ChatPage_after ?nul ?st) = []"
    by simp
  from 1 2 show ?thesis by simp
qed

text \<open>
  C2. Every request of \<open>sendChat\<close> is one POST to \<open>/chat\<close> whose JSON body has exactly
  the fields \<open>query\<close>, \<open>session_id\<close>, \<open>chat_history\<close> and \<open>role\<close>, in this order, with
  the arguments as their values and \<open>role\<close> defaulting to \<open>general\<close>; and the caller,
  \<open>handleSend\<close>, shows as the bot's message the field \<open>result\<close> of the returned object.
\<close>

theorem sendChat_request_shape:
  "fst (sendChat net q sid h role_arg) = [Fetch (chat_request q sid h role_arg)]
   \<and> http_method (chat_request q sid h role_arg) = ''POST''
   \<and> url (chat_request q sid h role_arg) = ''http://localhost:8000/chat''
   \<and> (\<exists>fields. body (chat_request q sid h role_arg) = JsonBody (JObject fields)
        \<and> map fst fields = [''query'', ''session_id'', ''chat_history'', ''role'']
        \<and> map_of fields ''query'' = Some (JString q)
        \<and> map_of fields ''session_id'' = Some (JString sid)
        \<and> map_of fields ''chat_history'' = Some (encode_history h)
        \<and> map_of fields ''role'' =
             Some (JString (case role_arg of None \<Rightarrow> ''general'' | Some r \<Rightarrow> r)))
   \<and> (js_trim (query st) \<noteq> []
        \<and> snd (sendChat net' (query st) (sessionId st) (history st) (Some ''general'')) = Inr (JObject fs)
        \<longrightarrow> fst (handleSend net' st) =
          [AppendMessage \<lparr>role = ''user'', content = JString (query st)\<rparr>,
           Fetch (chat_request (query st) (sessionId st) (history st) (Some ''general'')),
           AppendMessage \<lparr>role = ''bot'',
             content = (case map_of fs ''result'' of Some v \<Rightarrow> v | None \<Rightarrow> JUndefined)\<rparr>,
           AppendHistory (query st,
             case map_of fs ''result'' of Some v \<Rightarrow> v | None \<Rightarrow> JUndefined),
           SetQuery []])"
proof -
  have a: "fst (sendChat net q sid h role_arg) = [Fetch (chat_request q sid h role_arg)]"
    by (rule sendChat_effects)
  have b: "\<exists>fields. body (chat_request q sid h role_arg) = JsonBody (JObject fields)
        \<and> map fst fields = [''query'', ''session_id'', ''chat_history'', ''role'']
        \<and> map_of fields ''query'' = Some (JString q)
        \<and> map_of fields ''session_id'' = Some (JString sid)
        \<and> map_of fields ''chat_history'' = Some (encode_history h)
        \<and> map_of fields ''role'' =
             Some (JString (case role_arg of None \<Rightarrow> ''general'' | Some r \<Rightarrow> r))"
    by (simp add: chat_request_def)
  have c: "fst (handleSend net' st) =
          [AppendMessage \<lparr>role = ''user'', content = JString (query st)\<rparr>,
           Fetch (chat_request (query st) (sessionId st) (history st) (Some ''general'')),
           AppendMessage \<lparr>role = ''bot'',
             content = (case map_of fs ''result'' of Some v \<Rightarrow> v | None \<Rightarrow> JUndefined)\<rparr>,
           AppendHistory (query st,
             case map_of fs ''result'' of Some v \<Rightarrow> v | None \<Rightarrow> JUndefined),
           SetQuery []]"
    if nb: "js_trim (query st) \<noteq> []"
      and sc: "snd (sendChat net' (query st) (sessionId st) (history st) (Some ''general'')) = Inr (JObject fs)"
  proof -
    have "\<not> nullish (JObject fs)" by (simp add: nullish_def)
    from handleSend_ok[OF nb sc this] show ?thesis
      by (simp add: read_prop_def)
  qed
  show ?thesis
    using a b c by (simp add: chat_request_def)
qed

theorem sendChat_request_shape_witness:
  "fst (handleSend
      (\<lambda>_. Responded \<lparr>status = 201, json_body = Some (JObject [(''result'', JString ''fine'')])\<rparr>)
      \<lparr>query = ''status?'', messages = [], sessionId = ''s2'', history = []\<rparr>)
   = [AppendMessage \<lparr>role = ''user'', content = JString ''status?''\<rparr>,
      Fetch (chat_request ''status?'' ''s2'' [] (Some ''general'')),
      AppendMessage \<lparr>role = ''bot'', content = JString ''fine''\<rparr>,
      AppendHistory (''status?'', JString ''fine''),
      SetQuery []]"
proof -
  let ?net = "\<lambda>_::request. Responded \<lparr>status = 201, json_body = Some (JObject [(''result'', JString ''fine'')])\<rparr>"
  let ?st = "\<lparr>query = ''status?'', messages = [], sessionId = ''s2'', history = []\<rparr>"
  have nb: "js_trim (query ?st) \<noteq> []"
    by (simp add: trim_defs)
  have sc: "snd (sendChat ?net (query ?st) (sessionId ?st) (history ?st) (Some ''general''))
      = Inr (JObject [(''result'', JString ''fine'')])"
    by (simp add: sendChat_def run_defs ok_def)
  from sendChat_request_shape[of ?net "''q''" "''s''" "[]" None ?st ?net "[(''result'', JString ''fine'')]"] nb sc
  show ?thesis by simp
qed

text \<open>
  C8, as stated, fails: \<open>sendChat\<close> can succeed and the history still not grow. A 200
  response whose JSON body is \<open>null\<close> makes \<open>sendChat\<close> return \<open>null\<close> without throwing;
  reading \<open>res.result\<close> then throws inside the \<open>try\<close>, the \<open>catch\<close> runs, and the history
  is left as it was.
\<close>

theorem null_reply_leaves_history:
  "js_trim ''hi'' \<noteq> []
   \<and> sendChat (\<lambda>_. Responded \<lparr>status = 200, json_body = Some JNull\<rparr>) ''hi'' ''s1'' [] (Some ''general'')
       = ([Fetch (chat_request ''hi'' ''s1'' [] (Some ''general''))], Inr JNull)
   \<and> history (ChatPage_after (\<lambda>_. Responded \<lparr>status = 200, json_body = Some JNull\<rparr>)
        \<lparr>query = ''hi'', messages = [], sessionId = ''s1'', history = []\<rparr>) = []"
  by (simp add: trim_defs ChatPage_after_def handleSend_def
      sendChat_def run_defs ok_def get_prop_def nullish_def)

text \<open>
  C8, amended. For every run of \<open>handleSend\<close> the history grows by exactly one pair if
  and only if the query is not blank and \<open>sendChat\<close> returned a value that is not
  \<open>null\<close>; the pair is then \<open>[query, result]\<close>. When \<open>sendChat\<close> throws (non-2xx response,
  network error, or a body that is not JSON) or returns \<open>null\<close>, the history is unchanged
  and, after the user message, only the error bot message is added to the display. A
  blank query changes nothing at all.
\<close>

theorem history_grows_iff_reply:
  "(js_trim (query st) \<noteq> []
      \<and> snd (sendChat net (query st) (sessionId st) (history st) (Some ''general'')) = Inr d
      \<and> \<not> nullish d
    \<longrightarrow> history (ChatPage_after net st) = history st @ [(query st, read_prop d ''result'')])
   \<and> (js_trim (query st) \<noteq> []
      \<and> ((\<exists>e. snd (sendChat net (query st) (sessionId st) (history st) (Some ''general'')) = Inl e)
         \<or> (\<exists>v. snd (sendChat net (query st) (sessionId st) (history st) (Some ''general'')) = Inr v
               \<and> nullish v))
    \<longrightarrow> history (ChatPage_after net st) = history st
      \<and> messages (ChatPage_after net st) = messages st @
           [\<lparr>role = ''user'', content = JString (query st)\<rparr>,
            \<lparr>role = ''bot'', content = JString ''Error from server.''\<rparr>])
   \<and> (js_trim (query st) = [] \<longrightarrow> ChatPage_after net st = st)
   \<and> ((length (history (ChatPage_after net st)) = length (history st) + 1) =
       (js_trim (query st) \<noteq> []
        \<and> (\<exists>v. snd (sendChat net (query st) (sessionId st) (history st) (Some ''general'')) = Inr v
               \<and> \<not> nullish v)))"
proof (cases "js_trim (query st) = []")
  case True
  then have "ChatPage_after net st = st"
    by (simp add: ChatPage_after_def handleSend_def ret_def)
  with True show ?thesis by simp
next
  case nb: False
  show ?thesis
  proof (cases "snd (sendChat net (query st) (sessionId st) (history st) (Some ''general''))")
    case (Inl e)
    from handleSend_fail[OF nb Inl] have
      "history (ChatPage_after net st) = history st"
      "messages (ChatPage_after net st) = messages st @
           [\<lparr>role = ''user'', content = JString (query st)\<rparr>,
            \<lparr>role = ''bot'', content = JString ''Error from server.''\<rparr>]"
      by (simp_all add: ChatPage_after_def)
    with nb Inl show ?thesis by simp
  next
    case (Inr v)
    show ?thesis
    proof (cases "nullish v")
      case True
      from handleSend_null[OF nb Inr True] have
        "history (ChatPage_after net st) = history st"
        "messages (ChatPage_after net st) = messages st @
           [\<lparr>role = ''user'', content = JString (query st)\<rparr>,
            \<lparr>role = ''bot'', content = JString ''Error from server.''\<rparr>]"
        by (simp_all add: ChatPage_after_def)
      with nb Inr True show ?thesis by auto
    next
      case False
      from handleSend_ok[OF nb Inr False] have
        "history (ChatPage_after net st) = history st @ [(query st, read_prop v ''result'')]"
        by (simp add: ChatPage_after_def)
      with nb Inr False show ?thesis by auto
    qed
  qed
qed

theorem history_grows_iff_reply_witness:
  "history (ChatPage_after (\<lambda>_. Responded \<lparr>status = 200, json_body = Some (JObject [(''result'', JString ''yo'')])\<rparr>)
        \<lparr>query = ''hi'', messages = [], sessionId = ''s1'', history = [(''a'', JString ''b'')]\<rparr>)
      = [(''a'', JString ''b''), (''hi'', JString ''yo'')]
   \<and> history (ChatPage_after (\<lambda>_. Responded \<lparr>status = 503, json_body = None\<rparr>)
        \<lparr>query = ''hi'', messages = [], sessionId = ''s1'', history = [(''a'', JString ''b'')]\<rparr>)
      = [(''a'', JString ''b'')]
   \<and> messages (ChatPage_after (\<lambda>_. Responded \<lparr>status = 503, json_body = None\<rparr>)
        \<lparr>query = ''hi'', messages = [], sessionId = ''s1'', history = [(''a'', JString ''b'')]\<rparr>)
      = [\<lparr>role = ''user'', content = JString ''hi''\<rparr>,
         \<lparr>role = ''bot'', content = JString ''Error from server.''\<rparr>]
   \<and> ChatPage_after (\<lambda>_. Rejected)
        \<lparr>query = ''  '', messages = [], sessionId = ''s1'', history = [(''a'', JString ''b'')]\<rparr>
      = \<lparr>query = ''  '', messages = [], sessionId = ''s1'', history = [(''a'', JString ''b'')]\<rparr>"
proof -
  let ?ok = "\<lambda>_::request. Responded \<lparr>status = 200, json_body = Some (JObject [(''result'', JString ''yo'')])\<rparr>"
  let ?bad = "\<lambda>_::request. Responded \<lparr>status = 503, json_body = None\<rparr>"
  let ?st = "\<lparr>query = ''hi'', messages = [], sessionId = ''s1'', history = [(''a'', JString ''b'')]\<rparr>"
  let ?blank = "\<lparr>query = ''  '', messages = [], sessionId = ''s1'', history = [(''a'', JString ''b'')]\<rparr>"
  let ?d = "JObject [(''result'', JString ''yo'')]"
  have nb: "js_trim (query ?st) \<noteq> []"
    by (simp add: trim_defs)
  have bl: "js_trim (query ?blank) = []"
    by (simp add: trim_defs)
  have sc: "snd (sendChat ?ok (query ?st) (sessionId ?st) (history ?st) (Some ''general'')) = Inr ?d"
    by (simp add: sendChat_def run_defs ok_def)
  have sb: "snd (sendChat ?bad (query ?st) (sessionId ?st) (history ?st) (Some ''general''))
      = Inl (ChatApiFailed 503)"
    by (simp add: sendChat_def run_defs ok_def)
  have nn: "\<not> nullish ?d"
    by (simp add: nullish_def)
  have rd: "read_prop ?d ''result'' = JString ''yo''"
    by (simp add: read_prop_def)
  from history_grows_iff_reply[of ?st ?ok ?d] nb sc nn rd
  have 1: "history (ChatPage_after ?ok ?st) = [(''a'', JString ''b''), (''hi'', JString ''yo'')]"
    by simp
  from history_grows_iff_reply[of ?st ?bad ?d] nb sb
  have 2: "history (ChatPage_after ?bad ?st) = [(''a'', JString ''b'')]
    \<and> messages (ChatPage_after ?bad ?st) = [\<lparr>role = ''user'', content = JString ''hi''\<rparr>,
         \<lparr>role = ''bot'', content = JString ''Error from server.''\<rparr>]"
    by simp
  from history_grows_iff_reply[of ?blank "\<lambda>_. Rejected" ?d] bl
  have 3: "ChatPage_after (\<lambda>_. Rejected) ?blank = ?blank"
    by simp
  from 1 2 3 show ?thesis by simp
qed

section \<open>Guards on empty inputs\<close>

text \<open>
  C10. With an empty username or an empty password \<open>handleLogin\<close> shows an error toast
  and sends no request; with no file selected \<open>handleUpload\<close> shows an error toast and
  sends no request.
\<close>

theorem empty_inputs_guarded:
  "(username = [] \<or> password = [] \<longrightarrow>
      handleLogin env net username password =
        ([ToastError (JString ''Please enter username and password'')], Inr ())
      \<and> \<not> list_ex is_fetch (fst (handleLogin env net username password)))
   \<and> handleUpload to_str env net None =
        ([ToastError (JString ''Please select a file first.'')], Inr ())
   \<and> \<not> list_ex is_fetch (fst (handleUpload to_str env net None))"
  by (simp add: handleLogin_def handleUpload_def emit_def)

theorem empty_inputs_guarded_witness:
  "handleLogin None (\<lambda>_. Rejected) [] ''secret'' =
      ([ToastError (JString ''Please enter username and password'')], Inr ())
   \<and> handleLogin None (\<lambda>_. Rejected) ''admin'' [] =
      ([ToastError (JString ''Please enter username and password'')], Inr ())"
  using empty_inputs_guarded[of "[]" "''secret''" None "\<lambda>_. Rejected"]
    empty_inputs_guarded[of "''admin''" "[]" None "\<lambda>_. Rejected"]
  by simp

section \<open>The internal chat route\<close>

lemma completion_reply_empty:
  assumes "\<not> nullish c"
    and "read_prop c ''choices'' = JUndefined \<or> read_prop c ''choices'' = JNull \<or> read_prop c ''choices'' = JArray []"
  shows "completion_reply c = Inr (JString [])"
  using assms
  by (auto simp: completion_reply_def bind_exn_def get_prop_def opt_first_def opt_prop_def
      nullish_def js_or_def read_prop_def)

lemma POST_caught:
  assumes "snd (POST_body groq rj) = Inl e"
  shows "POST groq rj = (fst (POST_body groq rj) @ [ConsoleError (Some ''Chat error:'') e],
     Inr \<lparr>status = 500, json_body = Some (JObject [(''error'', JString ''Chat failed'')])\<rparr>)"
  using assms
  by (cases "POST_body groq rj") (simp add: POST_def try_catch_def seq_def emit_def ret_def NextResponse_json_def)

lemma POST_returned:
  assumes "snd (POST_body groq rj) = Inr r"
  shows "POST groq rj = POST_body groq rj"
  using assms
  by (cases "POST_body groq rj") (simp add: POST_def try_catch_def)

lemma POST_body_success:
  assumes "\<not> nullish b"
    and "array_map groq_message (js_or (read_prop b ''messages'') (JArray [])) = Inr ms"
    and "groq ms ''mixtral-8x7b-32768'' = Inr c"
    and "completion_reply c = Inr reply"
  shows "POST_body groq (Some b) = ([GroqCreate ms ''mixtral-8x7b-32768''],
     Inr \<lparr>status = 200, json_body = Some (JObject [(''role'', JString ''assistant''), (''content'', reply)])\<rparr>)"
  using assms
  by (simp add: POST_body_def seq_def lift_def ret_def get_prop_def groq_create_def NextResponse_json_def)

lemma POST_body_result:
  "snd (POST_body groq rj) = Inr r \<Longrightarrow>
     \<exists>reply. r = \<lparr>status = 200, json_body = Some (JObject [(''role'', JString ''assistant''), (''content'', reply)])\<rparr>"
  by (auto simp: POST_body_def seq_def lift_def ret_def groq_create_def NextResponse_json_def
      split: option.splits sum.splits prod.splits)

lemma POST_missing_messages:
  assumes "map_of fs ''messages'' = None"
  shows "POST_body groq (Some (JObject fs)) = POST_body groq (Some (JObject ((''messages'', JArray []) # fs)))"
  using assms
  by (simp add: POST_body_def seq_def lift_def get_prop_def nullish_def read_prop_def js_or_def)

lemma POST_missing_messages_call:
  assumes "map_of fs ''messages'' = None"
  shows "\<exists>r. POST_body groq (Some (JObject fs)) = ([GroqCreate [] ''mixtral-8x7b-32768''], r)"
  using assms
  by (auto simp: POST_body_def seq_def lift_def get_prop_def nullish_def read_prop_def js_or_def
     array_map_def groq_create_def ret_def split: sum.splits prod.splits)

text \<open>
  C9. For every request to the internal chat route: a body without a \<open>messages\<close> field is
  handled as one with \<open>messages: []\<close>, and the Groq client is called with the empty list; a
  completion whose \<open>choices\<close> is absent or empty gives the reply \<open>''\<close>; when nothing throws
  the response is \<open>{role: "assistant", content: reply}\<close> with status 200; and whenever
  something inside the \<open>try\<close> throws, the response is \<open>{error: "Chat failed"}\<close> with
  status 500.
\<close>

theorem chat_route_POST:
  "(map_of fs ''messages'' = None \<longrightarrow>
      POST groq (Some (JObject fs)) = POST groq (Some (JObject ((''messages'', JArray []) # fs)))
      \<and> hd (fst (POST groq (Some (JObject fs)))) = GroqCreate [] ''mixtral-8x7b-32768'')
   \<and> (\<not> nullish c
        \<and> (read_prop c ''choices'' = JUndefined \<or> read_prop c ''choices'' = JArray [])
      \<longrightarrow> completion_reply c = Inr (JString []))
   \<and> (\<not> nullish b
        \<and> array_map groq_message (js_or (read_prop b ''messages'') (JArray [])) = Inr ms
        \<and> groq ms ''mixtral-8x7b-32768'' = Inr c'
        \<and> completion_reply c' = Inr reply
      \<longrightarrow> POST groq (Some b) = ([GroqCreate ms ''mixtral-8x7b-32768''],
            Inr \<lparr>status = 200,
                 json_body = Some (JObject [(''role'', JString ''assistant''), (''content'', reply)])\<rparr>))
   \<and> (snd (POST_body groq req_json) = Inr r \<longrightarrow>
        snd (POST groq req_json) = Inr r
        \<and> (\<exists>reply. r = \<lparr>status = 200,
              json_body = Some (JObject [(''role'', JString ''assistant''), (''content'', reply)])\<rparr>))
   \<and> (snd (POST_body groq req_json) = Inl e \<longrightarrow>
        snd (POST groq req_json) =
          Inr \<lparr>status = 500, json_body = Some (JObject [(''error'', JString ''Chat failed'')])\<rparr>)"
proof -
  have a: "POST groq (Some (JObject fs)) = POST groq (Some (JObject ((''messages'', JArray []) # fs)))
      \<and> hd (fst (POST groq (Some (JObject fs)))) = GroqCreate [] ''mixtral-8x7b-32768''"
    if m: "map_of fs ''messages'' = None"
  proof -
    from POST_missing_messages_call[OF m, of groq] obtain r0 where
      r0: "POST_body groq (Some (JObject fs)) = ([GroqCreate [] ''mixtral-8x7b-32768''], r0)"
      by blast
    have "hd (fst (POST groq (Some (JObject fs)))) = GroqCreate [] ''mixtral-8x7b-32768''"
      by (cases r0) (simp_all add: POST_def r0 try_catch_def seq_def emit_def ret_def)
    moreover have "POST groq (Some (JObject fs)) = POST groq (Some (JObject ((''messages'', JArray []) # fs)))"
      by (simp add: POST_def POST_missing_messages[OF m])
    ultimately show ?thesis by simp
  qed
  have b: "completion_reply c = Inr (JString [])"
    if "\<not> nullish c" "read_prop c ''choices'' = JUndefined \<or> read_prop c ''choices'' = JArray []"
    using that by (intro completion_reply_empty) auto
  have c: "POST groq (Some b) = ([GroqCreate ms ''mixtral-8x7b-32768''],
            Inr \<lparr>status = 200,
                 json_body = Some (JObject [(''role'', JString ''assistant''), (''content'', reply)])\<rparr>)"
    if "\<not> nullish b"
      "array_map groq_message (js_or (read_prop b ''messages'') (JArray [])) = Inr ms"
      "groq ms ''mixtral-8x7b-32768'' = Inr c'"
      "completion_reply c' = Inr reply"
    using POST_body_success[of b ms groq c' reply] that by (simp add: POST_def try_catch_def)
  have d: "snd (POST groq req_json) = Inr r
        \<and> (\<exists>reply. r = \<lparr>status = 200,
              json_body = Some (JObject [(''role'', JString ''assistant''), (''content'', reply)])\<rparr>)"
    if "snd (POST_body groq req_json) = Inr r"
    using POST_returned[OF that] POST_body_result[OF that] that by simp
  have e: "snd (POST groq req_json) =
          Inr \<lparr>status = 500, json_body = Some (JObject [(''error'', JString ''Chat failed'')])\<rparr>"
    if "snd (POST_body groq req_json) = Inl e"
    using POST_caught[OF that] by simp
  from a b c d e show ?thesis by blast
qed

theorem chat_route_POST_witness:
  "POST (\<lambda>ms m. Inr (JObject [(''id'', JString ''c1'')])) (Some (JObject [(''model'', JString ''x'')]))
     = ([GroqCreate [] ''mixtral-8x7b-32768''],
        Inr \<lparr>status = 200,
             json_body = Some (JObject [(''role'', JString ''assistant''), (''content'', JString [])])\<rparr>)
   \<and> snd (POST (\<lambda>ms m. Inl GroqError) (Some (JObject [(''messages'', JArray [])])))
     = Inr \<lparr>status = 500, json_body = Some (JObject [(''error'', JString ''Chat failed'')])\<rparr>
   \<and> snd (POST (\<lambda>ms m. Inr (JObject [(''choices'', JArray
        [JObject [(''message'', JObject [(''content'', JString ''hello'')])]])]))
        (Some (JObject [(''messages'', JArray [JObject [(''role'', JString ''user''), (''content'', JString ''hi'')]])])))
     = Inr \<lparr>status = 200,
          json_body = Some (JObject [(''role'', JString ''assistant''), (''content'', JString ''hello'')])\<rparr>"
proof -
  let ?g1 = "\<lambda>(ms::jsval list) (m::string). (Inr (JObject [(''id'', JString ''c1'')]) :: exn + jsval)"
  let ?g2 = "\<lambda>(ms::jsval list) (m::string). (Inl GroqError :: exn + jsval)"
  let ?c3 = "JObject [(''choices'', JArray [JObject [(''message'', JObject [(''content'', JString ''hello'')])]])]"
  let ?g3 = "\<lambda>(ms::jsval list) (m::string). (Inr ?c3 :: exn + jsval)"
  let ?b1 = "JObject [(''model'', JString ''x'')]"
  let ?b3 = "JObject [(''messages'', JArray [JObject [(''role'', JString ''user''), (''content'', JString ''hi'')]])]"
  let ?c1 = "JObject [(''id'', JString ''c1'')]"
  have m1: "map_of [(''model'', JString ''x'')] ''messages'' = None" by simp
  have n1: "\<not> nullish ?c1" "\<not> nullish ?b1" "\<not> nullish ?b3" by (simp_all add: nullish_def)
  have ch1: "read_prop ?c1 ''choices'' = JUndefined" by (simp add: read_prop_def)
  have am1: "array_map groq_message (js_or (read_prop ?b1 ''messages'') (JArray [])) = Inr []"
    by (simp add: array_map_def js_or_def read_prop_def)
  have g1: "?g1 [] ''mixtral-8x7b-32768'' = Inr ?c1" by simp
  note t1 = chat_route_POST[of "[(''model'', JString ''x'')]" ?g1 ?c1 ?b1 "[]" ?c1 "JString []" None undefined undefined]
  have 0: "hd (fst (POST ?g1 (Some ?b1))) = GroqCreate [] ''mixtral-8x7b-32768''"
    using t1[THEN conjunct1, rule_format, OF m1] by (rule conjunct2)
  from t1[THEN conjunct2, THEN conjunct1] n1 ch1
  have r1: "completion_reply ?c1 = Inr (JString [])" by simp
  from t1[THEN conjunct2, THEN conjunct2, THEN conjunct1] n1 am1 g1 r1
  have 1: "POST ?g1 (Some ?b1) = ([GroqCreate [] ''mixtral-8x7b-32768''],
        Inr \<lparr>status = 200,
             json_body = Some (JObject [(''role'', JString ''assistant''), (''content'', JString [])])\<rparr>)"
    by simp
  have pb2: "snd (POST_body ?g2 (Some (JObject [(''messages'', JArray [])]))) = Inl GroqError"
    by (simp add: POST_body_def seq_def lift_def get_prop_def nullish_def read_prop_def js_or_def
        array_map_def groq_create_def)
  note t2 = chat_route_POST[of "[]" ?g2 ?c1 ?b1 "[]" ?c1 "JString []" "Some (JObject [(''messages'', JArray [])])" undefined GroqError]
  from t2[THEN conjunct2, THEN conjunct2, THEN conjunct2, THEN conjunct2] pb2
  have 2: "snd (POST ?g2 (Some (JObject [(''messages'', JArray [])])))
     = Inr \<lparr>status = 500, json_body = Some (JObject [(''error'', JString ''Chat failed'')])\<rparr>"
    by simp
  have pb3: "snd (POST_body ?g3 (Some ?b3)) = Inr \<lparr>status = 200,
          json_body = Some (JObject [(''role'', JString ''assistant''), (''content'', JString ''hello'')])\<rparr>"
    by (simp add: POST_body_def seq_def lift_def get_prop_def nullish_def read_prop_def js_or_def
        array_map_def groq_create_def groq_message_def bind_exn_def completion_reply_def
        opt_first_def opt_prop_def ret_def NextResponse_json_def)
  note t3 = chat_route_POST[of "[]" ?g3 ?c1 ?b1 "[]" ?c1 "JString []" "Some ?b3" _ undefined]
  from t3[THEN conjunct2, THEN conjunct2, THEN conjunct2, THEN conjunct1] pb3
  have 3: "snd (POST ?g3 (Some ?b3)) = Inr \<lparr>status = 200,
          json_body = Some (JObject [(''role'', JString ''assistant''), (''content'', JString ''hello'')])\<rparr>"
    by simp
  from 1 2 3 show ?thesis by simp
qed

section \<open>The list pages\<close>

lemma map_exn_cases:
  assumes "\<And>x. f x = (if P x then Inr (g x) else Inl e)"
  shows "map_exn f xs = (if list_all P xs then Inr (map g xs) else Inl e)"
proof (induction xs)
  case Nil
  show ?case by simp
next
  case (Cons x xs)
  show ?case
  proof (cases "P x")
    case True
    then have "f x = Inr (g x)" using assms[of x] by simp
    with True show ?thesis using Cons.IH by simp
  next
    case False
    then have "f x = Inl e" using assms[of x] by simp
    with False show ?thesis by simp
  qed
qed

lemma lead_row_read:
  "lead_row r = (if \<not> nullish r then
     Inr \<lparr>row_key = read_prop r ''id'',
          cells = [read_prop r ''id'', read_prop r ''name'', read_prop r ''status'']\<rparr>
     else Inl TypeError)"
  by (simp add: lead_row_def bind_exn_def get_prop_def)

lemma log_row_read:
  "log_row r = (if \<not> nullish r then
     Inr \<lparr>row_key = read_prop r ''job_id'',
          cells = [read_prop r ''job_id'', read_prop r ''status'', read_prop r ''duration'']\<rparr>
     else Inl TypeError)"
  by (simp add: log_row_def bind_exn_def get_prop_def)

lemma LeadsPage_rows_read:
  "LeadsPage_rows (JArray recs) =
     (if list_all (\<lambda>r. \<not> nullish r) recs then
        Inr (map (\<lambda>r. \<lparr>row_key = read_prop r ''id'',
          cells = [read_prop r ''id'', read_prop r ''name'', read_prop r ''status'']\<rparr>) recs)
      else Inl TypeError)"
  unfolding LeadsPage_rows_def array_map_def jsval.case
  by (rule map_exn_cases) (rule lead_row_read)

lemma SyncLogsPage_rows_read:
  "SyncLogsPage_rows (JArray recs) =
     (if list_all (\<lambda>r. \<not> nullish r) recs then
        Inr (map (\<lambda>r. \<lparr>row_key = read_prop r ''job_id'',
          cells = [read_prop r ''job_id'', read_prop r ''status'', read_prop r ''duration'']\<rparr>) recs)
      else Inl TypeError)"
  unfolding SyncLogsPage_rows_def array_map_def jsval.case
  by (rule map_exn_cases) (rule log_row_read)

lemma LeadsPage_effect_list:
  assumes "net (leads_request env) = Responded res" and "json_body res = Some (JArray recs)"
  shows "LeadsPage_effect env net = ([Fetch (leads_request env), SetLeads (JArray recs)], Inr ())"
  using assms
  by (simp add: LeadsPage_effect_def seq_def fetch_def res_json_def ret_def emit_def js_or_def)

lemma SyncLogsPage_effect_list:
  assumes "net (sync_logs_request env) = Responded res" and "json_body res = Some (JArray recs)"
  shows "SyncLogsPage_effect env net = ([Fetch (sync_logs_request env), SetLogs (JArray recs)], Inr ())"
  using assms
  by (simp add: SyncLogsPage_effect_def seq_def fetch_def res_json_def ret_def emit_def js_or_def)

text \<open>
  C7, as stated, fails: not every returned list is displayed. When \<open>/sync-logs\<close> returns
  the list \<open>[{job_id: "j1"}, null]\<close> the page stores it as received, and building the
  table then reads \<open>log.job_id\<close> of \<open>null\<close> and throws: no row is shown, not even the
  first record's.
\<close>

theorem null_record_breaks_table:
  "SyncLogsPage_effect None
      (\<lambda>_. Responded \<lparr>status = 200,
         json_body = Some (JArray [JObject [(''job_id'', JString ''j1'')], JNull])\<rparr>)
     = ([Fetch (sync_logs_request None),
         SetLogs (JArray [JObject [(''job_id'', JString ''j1'')], JNull])], Inr ())
   \<and> SyncLogsPage_rows (list_after (fst (SyncLogsPage_effect None
      (\<lambda>_. Responded \<lparr>status = 200,
         json_body = Some (JArray [JObject [(''job_id'', JString ''j1'')], JNull])\<rparr>))))
     = Inl TypeError"
  by (simp add: SyncLogsPage_effect_def seq_def fetch_def res_json_def ret_def emit_def js_or_def
      list_after_def SyncLogsPage_rows_def array_map_def log_row_def bind_exn_def get_prop_def
      nullish_def read_prop_def)

text \<open>
  C7, amended. For every list the \<open>/leads\<close> (or \<open>/sync-logs\<close>) call returns, whatever the
  status of the response, the page stores the list itself, unchanged, and the run does
  nothing but the request and that one state update. When no element of the list is
  \<open>null\<close>, the table has one row per element, in the order received, whose cells are the
  element's \<open>id\<close>, \<open>name\<close> and \<open>status\<close> (or \<open>job_id\<close>, \<open>status\<close> and \<open>duration\<close>) exactly as
  read, \<open>undefined\<close> where a field is missing: nothing is checked, dropped or changed.
  When some element is \<open>null\<close>, building the table throws and no row is shown.
\<close>

theorem lists_rendered_as_received:
  "(net (leads_request env) = Responded res \<and> json_body res = Some (JArray recs) \<longrightarrow>
      LeadsPage_effect env net = ([Fetch (leads_request env), SetLeads (JArray recs)], Inr ())
      \<and> list_after (fst (LeadsPage_effect env net)) = JArray recs
      \<and> LeadsPage_rows (list_after (fst (LeadsPage_effect env net))) =
          (if list_all (\<lambda>r. \<not> nullish r) recs then
             Inr (map (\<lambda>r. \<lparr>row_key = read_prop r ''id'',
                 cells = [read_prop r ''id'', read_prop r ''name'', read_prop r ''status'']\<rparr>) recs)
           else Inl TypeError))
   \<and> (net (sync_logs_request env) = Responded res' \<and> json_body res' = Some (JArray recs') \<longrightarrow>
      SyncLogsPage_effect env net = ([Fetch (sync_logs_request env), SetLogs (JArray recs')], Inr ())
      \<and> list_after (fst (SyncLogsPage_effect env net)) = JArray recs'
      \<and> SyncLogsPage_rows (list_after (fst (SyncLogsPage_effect env net))) =
          (if list_all (\<lambda>r. \<not> nullish r) recs' then
             Inr (map (\<lambda>r. \<lparr>row_key = read_prop r ''job_id'',
                 cells = [read_prop r ''job_id'', read_prop r ''status'', read_prop r ''duration'']\<rparr>) recs')
           else Inl TypeError))"
proof -
  have a: "LeadsPage_effect env net = ([Fetch (leads_request env), SetLeads (JArray recs)], Inr ())
      \<and> list_after (fst (LeadsPage_effect env net)) = JArray recs
      \<and> LeadsPage_rows (list_after (fst (LeadsPage_effect env net))) =
          (if list_all (\<lambda>r. \<not> nullish r) recs then
             Inr (map (\<lambda>r. \<lparr>row_key = read_prop r ''id'',
                 cells = [read_prop r ''id'', read_prop r ''name'', read_prop r ''status'']\<rparr>) recs)
           else Inl TypeError)"
    if "net (leads_request env) = Responded res" "json_body res = Some (JArray recs)"
    using LeadsPage_effect_list[of net env res recs] LeadsPage_rows_read[of recs] that
    by (simp add: list_after_def)
  have b: "SyncLogsPage_effect env net = ([Fetch (sync_logs_request env), SetLogs (JArray recs')], Inr ())
      \<and> list_after (fst (SyncLogsPage_effect env net)) = JArray recs'
      \<and> SyncLogsPage_rows (list_after (fst (SyncLogsPage_effect env net))) =
          (if list_all (\<lambda>r. \<not> nullish r) recs' then
             Inr (map (\<lambda>r. \<lparr>row_key = read_prop r ''job_id'',
                 cells = [read_prop r ''job_id'', read_prop r ''status'', read_prop r ''duration'']\<rparr>) recs')
           else Inl TypeError)"
    if "net (sync_logs_request env) = Responded res'" "json_body res' = Some (JArray recs')"
    using SyncLogsPage_effect_list[of net env res' recs'] SyncLogsPage_rows_read[of recs'] that
    by (simp add: list_after_def)
  from a b show ?thesis by blast
qed

theorem lists_rendered_as_received_witness:
  "LeadsPage_rows (list_after (fst (LeadsPage_effect None
      (\<lambda>_. Responded \<lparr>status = 200, json_body = Some (JArray
         [JObject [(''id'', JNum 7), (''name'', JString ''Ada''), (''status'', JString ''new'')],
          JObject [(''id'', JNum 8), (''status'', JBool True)]])\<rparr>))))
   = Inr [\<lparr>row_key = JNum 7, cells = [JNum 7, JString ''Ada'', JString ''new'']\<rparr>,
          \<lparr>row_key = JNum 8, cells = [JNum 8, JUndefined, JBool True]\<rparr>]
   \<and> SyncLogsPage_rows (list_after (fst (SyncLogsPage_effect None
      (\<lambda>_. Responded \<lparr>status = 200, json_body = Some (JArray
         [JObject [(''job_id'', JString ''j1''), (''status'', JString ''done''), (''duration'', JNum 12)]])\<rparr>))))
   = Inr [\<lparr>row_key = JString ''j1'', cells = [JString ''j1'', JString ''done'', JNum 12]\<rparr>]
   \<and> LeadsPage_rows (list_after (fst (LeadsPage_effect None
      (\<lambda>_. Responded \<lparr>status = 200, json_body = Some (JArray
         [JNull, JObject [(''id'', JNum 8)]])\<rparr>))))
   = Inl TypeError"
proof -
  let ?leads = "[JObject [(''id'', JNum 7), (''name'', JString ''Ada''), (''status'', JString ''new'')],
          JObject [(''id'', JNum 8), (''status'', JBool True)]]"
  let ?logs = "[JObject [(''job_id'', JString ''j1''), (''status'', JString ''done''), (''duration'', JNum 12)]]"
  let ?bad = "[JNull, JObject [(''id'', JNum 8)]]"
  let ?r1 = "\<lparr>status = 200, json_body = Some (JArray ?leads)\<rparr>"
  let ?r2 = "\<lparr>status = 200, json_body = Some (JArray ?logs)\<rparr>"
  let ?r3 = "\<lparr>status = 200, json_body = Some (JArray ?bad)\<rparr>"
  note t1 = lists_rendered_as_received[of "\<lambda>_. Responded ?r1" None ?r1 ?leads ?r2 ?logs, THEN conjunct1]
  note t2 = lists_rendered_as_received[of "\<lambda>_. Responded ?r2" None ?r1 ?leads ?r2 ?logs, THEN conjunct2]
  note t3 = lists_rendered_as_received[of "\<lambda>_. Responded ?r3" None ?r3 ?bad ?r2 ?logs, THEN conjunct1]
  have p1: "Responded ?r1 = Responded ?r1 \<and> json_body ?r1 = Some (JArray ?leads)"
    by simp
  have p2: "Responded ?r2 = Responded ?r2 \<and> json_body ?r2 = Some (JArray ?logs)"
    by simp
  have p3: "Responded ?r3 = Responded ?r3 \<and> json_body ?r3 = Some (JArray ?bad)"
    by simp
  from t1[rule_format, OF p1, THEN conjunct2, THEN conjunct2]
  have 1: "LeadsPage_rows (list_after (fst (LeadsPage_effect None (\<lambda>_. Responded ?r1))))
    = Inr [\<lparr>row_key = JNum 7, cells = [JNum 7, JString ''Ada'', JString ''new'']\<rparr>,
          \<lparr>row_key = JNum 8, cells = [JNum 8, JUndefined, JBool True]\<rparr>]"
    by (simp add: read_prop_def nullish_def)
  from t2[rule_format, OF p2, THEN conjunct2, THEN conjunct2]
  have 2: "SyncLogsPage_rows (list_after (fst (SyncLogsPage_effect None (\<lambda>_. Responded ?r2))))
    = Inr [\<lparr>row_key = JString ''j1'', cells = [JString ''j1'', JString ''done'', JNum 12]\<rparr>]"
    by (simp add: read_prop_def nullish_def)
  from t3[rule_format, OF p3, THEN conjunct2, THEN conjunct2]
  have 3: "LeadsPage_rows (list_after (fst (LeadsPage_effect None (\<lambda>_. Responded ?r3))))
    = Inl TypeError"
    by (simp add: nullish_def)
  from 1 2 3 show ?thesis by simp
qed

section \<open>The knowledge-base upload\<close>

text \<open>
  What \<open>handleUpload\<close> does with a selected file: one multipart POST of the file to
  \<open>/kb-upload\<close>; the success toast when the response is ok; when it is not ok and its body
  is JSON other than \<open>null\<close>, the failure toast, with the server's \<open>message\<close> when that
  is a non-empty string.
\<close>

lemma handleUpload_ok:
  assumes "net (upload_request env f) = Responded res" and "ok res"
  shows "handleUpload to_str env net (Some f) =
     ([Fetch (upload_request env f),
       ToastSuccess (JString (check_mark @ '' File uploaded and indexed''))], Inr ())"
  using assms by (simp add: handleUpload_def run_defs)

lemma handleUpload_error_body:
  assumes "net (upload_request env f) = Responded res" and "\<not> ok res"
    and "json_body res = Some d" and "\<not> nullish d"
  shows "handleUpload to_str env net (Some f) =
     ([Fetch (upload_request env f),
       ToastError (JString (cross_mark @ '' Upload failed: '' @
         template_value to_str (js_or (read_prop d ''message'') (JString ''Unknown error''))))],
      Inr ())"
  using assms by (simp add: handleUpload_def run_defs get_prop_def)

lemma handleUpload_message_shown:
  assumes "net (upload_request env f) = Responded res" and "\<not> ok res"
    and "json_body res = Some (JObject fs)" and "map_of fs ''message'' = Some (JString msg)"
    and "msg \<noteq> []"
  shows "handleUpload to_str env net (Some f) =
     ([Fetch (upload_request env f),
       ToastError (JString (cross_mark @ '' Upload failed: '' @ msg))], Inr ())"
proof -
  have "\<not> nullish (JObject fs)" by (simp add: nullish_def)
  from handleUpload_error_body[of net env f res "JObject fs" to_str] assms this show ?thesis
    by (simp add: read_prop_def js_or_def template_value_def)
qed

lemma handleUpload_unhandled:
  assumes "net (upload_request env f) = Rejected
     \<or> (\<exists>res. net (upload_request env f) = Responded res \<and> \<not> ok res
          \<and> (json_body res = None \<or> (\<exists>d. json_body res = Some d \<and> nullish d)))"
  shows "fst (handleUpload to_str env net (Some f)) = [Fetch (upload_request env f)]
     \<and> (\<exists>e. snd (handleUpload to_str env net (Some f)) = Inl e)"
  using assms by (auto simp: handleUpload_def run_defs get_prop_def)

text \<open>
  C6 says a failure toast is shown whenever the response is not ok. \<open>handleUpload\<close> has no
  \<open>try\<close>: at a 502 response whose body is not JSON, \<open>res.json()\<close> rejects before
  \<open>toast.error\<close> is reached, and the run ends with the request alone and no toast at
  all; the same at a network error. (\<open>handleLogin\<close> wraps the same steps in
  \<open>try\<close>/\<open>catch\<close> and shows a toast in both cases.)
\<close>

theorem upload_failure_without_toast:
  "handleUpload (\<lambda>_. []) None (\<lambda>_. Responded \<lparr>status = 502, json_body = None\<rparr>)
      (Some \<lparr>file_name = ''kb.md'', file_bytes = ''notes''\<rparr>)
     = ([Fetch (upload_request None \<lparr>file_name = ''kb.md'', file_bytes = ''notes''\<rparr>)], Inl SyntaxError)
   \<and> list_ex is_toast (fst (handleUpload (\<lambda>_. []) None
        (\<lambda>_. Responded \<lparr>status = 502, json_body = None\<rparr>)
        (Some \<lparr>file_name = ''kb.md'', file_bytes = ''notes''\<rparr>))) = False
   \<and> handleUpload (\<lambda>_. []) None (\<lambda>_. Rejected)
      (Some \<lparr>file_name = ''kb.md'', file_bytes = ''notes''\<rparr>)
     = ([Fetch (upload_request None \<lparr>file_name = ''kb.md'', file_bytes = ''notes''\<rparr>)], Inl NetworkError)"
  by (simp add: handleUpload_def run_defs ok_def)

section \<open>The session gates\<close>


lemma checkSession_role:
  assumes "net (check_session_request env) = Responded res" and "ok res"
    and "json_body res = Some d" and "\<not> nullish d"
  shows "DashboardHome_checkSession env net =
      ([Fetch (check_session_request env),
        if read_prop d ''role'' = JString ''logged_in'' then SetRole ''logged_in''
        else RouterPush ''/login''], Inr ())"
    and "DashboardLayout_checkSession env net =
      ([Fetch (check_session_request env),
        if read_prop d ''role'' = JString ''logged_in'' then SetRole ''logged_in''
        else RouterPush ''/login''], Inr ())"
  using assms
  by (simp_all add: DashboardHome_checkSession_def DashboardLayout_checkSession_def run_defs get_prop_def)

lemma checkSession_logged_in_view:
  assumes "net (check_session_request env) = Responded res" and "ok res"
    and "json_body res = Some d" and "read_prop d ''role'' = JString ''logged_in''"
  shows "Dashboard_view (role_after (fst (DashboardHome_checkSession env net))) = Content"
    and "list_ex is_redirect (fst (DashboardHome_checkSession env net)) = False"
    and "Dashboard_view (role_after (fst (DashboardLayout_checkSession env net))) = Content"
    and "list_ex is_redirect (fst (DashboardLayout_checkSession env net)) = False"
proof -
  have "\<not> nullish d" using assms(4) by (auto simp: nullish_def read_prop_def)
  note r = checkSession_role[of net env res d, OF assms(1-3) this]
  show "Dashboard_view (role_after (fst (DashboardHome_checkSession env net))) = Content"
    "list_ex is_redirect (fst (DashboardHome_checkSession env net)) = False"
    "Dashboard_view (role_after (fst (DashboardLayout_checkSession env net))) = Content"
    "list_ex is_redirect (fst (DashboardLayout_checkSession env net)) = False"
    by (simp_all add: r assms(4) role_after_def Dashboard_view_def)
qed

lemma fetchSession_thrown:
  assumes "net (check_session_request env) = Rejected
     \<or> (\<exists>res. net (check_session_request env) = Responded res
          \<and> (json_body res = None \<or> (\<exists>d. json_body res = Some d \<and> nullish d)))"
  shows "\<exists>e. KBUploadPage_fetchSession env net =
      ([Fetch (check_session_request env), ConsoleError (Some ''Session check failed:'') e,
        RouterReplace ''/login'', SetLoading False], Inr ())"
  using assms by (auto simp: KBUploadPage_fetchSession_def run_defs get_prop_def)

lemma fetchSession_role:
  assumes "net (check_session_request env) = Responded res"
    and "json_body res = Some d" and "\<not> nullish d"
  shows "KBUploadPage_fetchSession env net =
      ([Fetch (check_session_request env),
        if read_prop d ''role'' \<noteq> JString ''logged_in'' then RouterReplace ''/login''
        else SetRole ''logged_in'',
        SetLoading False], Inr ())"
  using assms by (simp add: KBUploadPage_fetchSession_def run_defs get_prop_def)

lemma fetchSession_view:
  "KBUploadPage_view (loading_after (fst (KBUploadPage_fetchSession env net))) = Content"
  by (auto simp: KBUploadPage_fetchSession_def run_defs get_prop_def loading_after_def
      KBUploadPage_view_def split: fetch_result.splits option.splits)

text \<open>
  C3 says every gated page goes to the login page when the session check fails.
  \<open>checkSession\<close> of \<open>DashboardHome\<close> and of \<open>DashboardLayout\<close> has no \<open>try\<close>: at a
  network error the run ends with the request alone, nothing redirects, and the page
  stays on "Checking session...". \<open>fetchSession\<close> of \<open>KBUploadPage\<close>, at the same
  input, catches the error and redirects.
\<close>

theorem session_gate_network_error:
  "DashboardHome_checkSession None (\<lambda>_. Rejected) =
      ([Fetch (check_session_request None)], Inl NetworkError)
   \<and> list_ex is_redirect (fst (DashboardHome_checkSession None (\<lambda>_. Rejected))) = False
   \<and> Dashboard_view (role_after (fst (DashboardHome_checkSession None (\<lambda>_. Rejected)))) = Checking
   \<and> DashboardLayout_checkSession None (\<lambda>_. Rejected) =
      ([Fetch (check_session_request None)], Inl NetworkError)
   \<and> KBUploadPage_fetchSession None (\<lambda>_. Rejected) =
      ([Fetch (check_session_request None),
        ConsoleError (Some ''Session check failed:'') NetworkError,
        RouterReplace ''/login'', SetLoading False], Inr ())"
  by (simp add: DashboardHome_checkSession_def DashboardLayout_checkSession_def
      KBUploadPage_fetchSession_def run_defs role_after_def Dashboard_view_def)

text \<open>
  \<open>fetchSession\<close> in turn never looks at \<open>res.ok\<close>: a non-ok response whose body carries
  the role \<open>logged_in\<close> passes its gate.
\<close>

lemma fetchSession_not_ok_logged_in:
  "KBUploadPage_fetchSession None
     (\<lambda>_. Responded \<lparr>status = 500, json_body = Some (JObject [(''role'', JString ''logged_in'')])\<rparr>) =
     ([Fetch (check_session_request None), SetRole ''logged_in'', SetLoading False], Inr ())"
  by (simp add: KBUploadPage_fetchSession_def run_defs get_prop_def nullish_def read_prop_def)

section \<open>Where the calls go\<close>



















section \<open>How failures are handled\<close>










end
